theory Spec2Isabelle
  imports Main "HOL-Library.Word"
begin

section \<open>JavaScript values\<close>

text \<open>
  The values that \<^verbatim>\<open>JSON.parse\<close> produces, plus \<^verbatim>\<open>undefined\<close>, which a
  property read of a missing member yields. Numbers are never computed with by the
  program (they are copied and printed), so their type is a parameter \<open>'n\<close>. An object
  is the list of its own members; a string is the list of its characters.
\<close>

datatype 'n jsval =
    JUndefined
  | JNull
  | JBool bool
  | JNum 'n
  | JStr string
  | JArr "'n jsval list"
  | JObj "(string \<times> 'n jsval) list"

text \<open>
  What a \<^verbatim>\<open>try\<close> block of the program can catch: a rejected HTTP call, or the
  \<^verbatim>\<open>TypeError\<close> of reading a property of \<^verbatim>\<open>undefined\<close>/\<^verbatim>\<open>null\<close> or of
  calling something that is not a function.
\<close>

datatype js_error = TypeError | RequestFailed

definition bindE :: "'e + 'a \<Rightarrow> ('a \<Rightarrow> 'e + 'b) \<Rightarrow> 'e + 'b" where
  "bindE m f = (case m of Inl e \<Rightarrow> Inl e | Inr x \<Rightarrow> f x)"

text \<open>
  \<^verbatim>\<open>v.k\<close> for the member names the program reads (\<^verbatim>\<open>list\<close>, \<^verbatim>\<open>dt_txt\<close>,
  \<^verbatim>\<open>main\<close>, \<^verbatim>\<open>temp\<close>, \<^verbatim>\<open>feels_like\<close>, \<^verbatim>\<open>weather\<close>, \<^verbatim>\<open>description\<close>,
  \<^verbatim>\<open>date\<close>, \<^verbatim>\<open>temperature\<close>): none of them is an inherited property of a
  string, an array, a number or a boolean, so there the read gives \<^verbatim>\<open>undefined\<close>.
\<close>

fun get_member :: "'n jsval \<Rightarrow> string \<Rightarrow> js_error + 'n jsval" where
  "get_member JUndefined k = Inl TypeError"
| "get_member JNull k = Inl TypeError"
| "get_member (JObj kvs) k = Inr (case map_of kvs k of None \<Rightarrow> JUndefined | Some v \<Rightarrow> v)"
| "get_member (JBool b) k = Inr JUndefined"
| "get_member (JNum n) k = Inr JUndefined"
| "get_member (JStr s) k = Inr JUndefined"
| "get_member (JArr xs) k = Inr JUndefined"

text \<open>\<^verbatim>\<open>v[0]\<close>: the first element of an array, the first character of a string.\<close>

fun get_first :: "'n jsval \<Rightarrow> js_error + 'n jsval" where
  "get_first JUndefined = Inl TypeError"
| "get_first JNull = Inl TypeError"
| "get_first (JObj kvs) = Inr (case map_of kvs ''0'' of None \<Rightarrow> JUndefined | Some v \<Rightarrow> v)"
| "get_first (JBool b) = Inr JUndefined"
| "get_first (JNum n) = Inr JUndefined"
| "get_first (JStr s) = Inr (case s of [] \<Rightarrow> JUndefined | c # _ \<Rightarrow> JStr [c])"
| "get_first (JArr xs) = Inr (case xs of [] \<Rightarrow> JUndefined | x # _ \<Rightarrow> x)"

text \<open>
  \<^verbatim>\<open>v.slice(0, 5 * 8)\<close>: arrays and strings have the method; on anything else the call
  throws (a parsed JSON object holds no function).
\<close>

fun slice_5x8 :: "'n jsval \<Rightarrow> js_error + 'n jsval" where
  "slice_5x8 (JArr xs) = Inr (JArr (take (5 * 8) xs))"
| "slice_5x8 (JStr s) = Inr (JStr (take (5 * 8) s))"
| "slice_5x8 v = Inl TypeError"

text \<open>\<^verbatim>\<open>v.map(f)\<close>: only arrays have the method; a callback that throws ends the call.\<close>

fun map_items :: "('a \<Rightarrow> js_error + 'b) \<Rightarrow> 'a list \<Rightarrow> js_error + 'b list" where
  "map_items f [] = Inr []"
| "map_items f (x # xs) = bindE (f x) (\<lambda>y. bindE (map_items f xs) (\<lambda>ys. Inr (y # ys)))"

fun array_map :: "('n jsval \<Rightarrow> js_error + 'b) \<Rightarrow> 'n jsval \<Rightarrow> js_error + 'b list" where
  "array_map f (JArr xs) = map_items f xs"
| "array_map f v = Inl TypeError"

section \<open>Backend: the \<^verbatim>\<open>GET /weather\<close> handler\<close>

text \<open>
  What the forecast provider does with one request, as \<^verbatim>\<open>axios.get\<close> sees it: no
  answer at all, or an HTTP status with the response data. The data of an answer whose
  body is not JSON text is that text, as a string (axios leaves it unparsed).
\<close>

datatype 'n upstream = NetworkError | HttpResponse nat "'n jsval"

text \<open>\<^verbatim>\<open>axios.get\<close> rejects when there is no answer or the status is not 2xx.\<close>

fun axios_get :: "'n upstream \<Rightarrow> js_error + 'n jsval" where
  "axios_get NetworkError = Inl RequestFailed"
| "axios_get (HttpResponse st d) = (if 200 \<le> st \<and> st < 300 then Inr d else Inl RequestFailed)"

record 'n response =
  status :: nat
  body :: "'n jsval"

definition API_KEY :: string where
  "API_KEY = ''your_openweathermap_api_key''"

definition forecast_url :: "string \<Rightarrow> string" where
  "forecast_url city =
     ''http://api.openweathermap.org/data/2.5/forecast?q='' @ city @ ''&appid='' @ API_KEY
       @ ''&units=metric''"

text \<open>The callback of \<^verbatim>\<open>weatherData.map\<close>; the members are read in the source's order.\<close>

definition to_slot :: "'n jsval \<Rightarrow> js_error + 'n jsval" where
  "to_slot item =
     bindE (get_member item ''dt_txt'') (\<lambda>date.
     bindE (bindE (get_member item ''main'') (\<lambda>m. get_member m ''temp'')) (\<lambda>temperature.
     bindE (bindE (bindE (get_member item ''weather'') get_first)
              (\<lambda>w. get_member w ''description'')) (\<lambda>description.
     bindE (bindE (get_member item ''main'') (\<lambda>m. get_member m ''feels_like'')) (\<lambda>feels_like.
     Inr (JObj [(''date'', date), (''temperature'', temperature),
                (''description'', description), (''feels_like'', feels_like)])))))"

text \<open>The body of the \<^verbatim>\<open>try\<close> block: the value handed to \<^verbatim>\<open>res.json\<close>, or what was thrown.\<close>

definition weather_try :: "(string \<Rightarrow> 'n upstream) \<Rightarrow> string \<Rightarrow> js_error + 'n jsval" where
  "weather_try provider city =
     bindE (axios_get (provider (forecast_url city))) (\<lambda>data.
     bindE (bindE (get_member data ''list'') slice_5x8) (\<lambda>weatherData.
     bindE (array_map to_slot weatherData) (\<lambda>slots. Inr (JArr slots))))"

definition error_response :: "'n response" where
  "error_response =
     \<lparr>status = 500, body = JObj [(''error'', JStr ''Error fetching weather data'')]\<rparr>"

text \<open>
  The handler: \<^verbatim>\<open>res.json(v)\<close> answers with status 200, the \<^verbatim>\<open>catch\<close> branch with
  status 500. The body is the value handed to \<^verbatim>\<open>json\<close>, before it is serialised.
\<close>

definition weather_handler :: "(string \<Rightarrow> 'n upstream) \<Rightarrow> string \<Rightarrow> 'n response" where
  "weather_handler provider city =
     (case weather_try provider city of
        Inl e \<Rightarrow> error_response
      | Inr v \<Rightarrow> \<lparr>status = 200, body = v\<rparr>)"

subsection \<open>The shape of a provider record, in the spec's words\<close>

text \<open>
  A record of the provider's list: an object with a \<^verbatim>\<open>main\<close> object and a
  \<^verbatim>\<open>weather\<close> array whose first entry is an object.
\<close>

fun is_object :: "'n jsval \<Rightarrow> bool" where
  "is_object (JObj kvs) = True"
| "is_object v = False"

fun member :: "'n jsval \<Rightarrow> string \<Rightarrow> 'n jsval" where
  "member (JObj kvs) k = (case map_of kvs k of None \<Rightarrow> JUndefined | Some v \<Rightarrow> v)"
| "member v k = JUndefined"

fun first_condition :: "'n jsval \<Rightarrow> 'n jsval" where
  "first_condition (JArr (w # ws)) = w"
| "first_condition v = JUndefined"

definition forecast_record :: "'n jsval \<Rightarrow> bool" where
  "forecast_record r \<longleftrightarrow>
     is_object r \<and> is_object (member r ''main'') \<and> is_object (first_condition (member r ''weather''))"

text \<open>
  The ForecastSlot of a record: its timestamp, mean temperature, first weather-condition
  description and felt temperature, under the names of the endpoint's contract.
\<close>

definition forecast_slot :: "'n jsval \<Rightarrow> 'n jsval" where
  "forecast_slot r =
     JObj [(''date'', member r ''dt_txt''),
           (''temperature'', member (member r ''main'') ''temp''),
           (''description'', member (first_condition (member r ''weather'')) ''description''),
           (''feels_like'', member (member r ''main'') ''feels_like'')]"


text \<open>
  An upstream failure: no answer, a status outside 2xx (which is what the provider gives
  for an unknown city), or a body without a \<^verbatim>\<open>list\<close> array, such as the unparsed text
  of a body that is not JSON.
\<close>

fun is_array :: "'n jsval \<Rightarrow> bool" where
  "is_array (JArr xs) = True"
| "is_array v = False"

fun upstream_failure :: "'n upstream \<Rightarrow> bool" where
  "upstream_failure NetworkError = True"
| "upstream_failure (HttpResponse st d) = (st < 200 \<or> 300 \<le> st \<or> \<not> is_array (member d ''list''))"

section \<open>Frontend: the \<^verbatim>\<open>App\<close> component\<close>

subsection \<open>Strings\<close>

text \<open>\<^verbatim>\<open>xs.join(sep)\<close> on an array of strings.\<close>

fun join_with :: "string \<Rightarrow> string list \<Rightarrow> string" where
  "join_with sep [] = []"
| "join_with sep [x] = x"
| "join_with sep (x # y # ys) = x @ sep @ join_with sep (y # ys)"

text \<open>
  What a template literal puts in for \<^verbatim>\<open>${v}\<close>. The text of a number is the
  platform's (\<open>nt\<close>); an array prints its elements joined by commas, \<^verbatim>\<open>null\<close> and
  \<^verbatim>\<open>undefined\<close> elements as nothing.
\<close>

fun to_string :: "('n \<Rightarrow> string) \<Rightarrow> 'n jsval \<Rightarrow> string" where
  "to_string nt JUndefined = ''undefined''"
| "to_string nt JNull = ''null''"
| "to_string nt (JBool b) = (if b then ''true'' else ''false'')"
| "to_string nt (JNum n) = nt n"
| "to_string nt (JStr s) = s"
| "to_string nt (JArr xs) =
     join_with '',''
       (map (\<lambda>x. case x of JUndefined \<Rightarrow> [] | JNull \<Rightarrow> [] | _ \<Rightarrow> to_string nt x) xs)"
| "to_string nt (JObj kvs) = ''[object Object]''"

subsection \<open>The accent table and the component's state\<close>

datatype accent =
    british_male | british_female | british_slang
  | french_male | french_female
  | italian_male | italian_female
  | jamaican_male | jamaican_female

text \<open>The table \<^verbatim>\<open>accents\<close>; the character \<open>CHR 0xE7\<close> is the c with cedilla.\<close>

fun accents :: "accent \<Rightarrow> string" where
  "accents british_male = ''Google UK English Male''"
| "accents british_female = ''Google UK English Female''"
| "accents british_slang = ''Google UK English Male''"
| "accents french_male = ''Google fran'' @ [CHR 0xE7] @ ''ais''"
| "accents french_female = ''Google fran'' @ [CHR 0xE7] @ ''ais''"
| "accents italian_male = ''Google italiano Male''"
| "accents italian_female = ''Google italiano Female''"
| "accents jamaican_male = ''Google US English Male''"
| "accents jamaican_female = ''Google US English Female''"

text \<open>
  The values of the five \<^verbatim>\<open>useState\<close> hooks in one render. The functions of a render
  (\<^verbatim>\<open>fetchWeather\<close>, \<^verbatim>\<open>speakWeather\<close>, \<^verbatim>\<open>scheduleSpeech\<close>) are closures over these
  values: they keep seeing them after a later \<^verbatim>\<open>set...\<close> call has made a new render.
\<close>

record 'n app_state =
  city :: string
  accent :: accent
  weather :: "'n jsval"
  voicePermissionsGranted :: bool
  scheduleTime :: string

definition initial_state :: "'n app_state" where
  "initial_state =
     \<lparr>city = ''London'', accent = british_male, weather = JArr [],
      voicePermissionsGranted = False, scheduleTime = ''''\<rparr>"

subsection \<open>The platform and the world\<close>

record voice =
  name :: string
  lang :: string

record utterance =
  utterance_text :: string
  voice :: "voice option"

text \<open>
  What \<^verbatim>\<open>fetch\<close> followed by \<^verbatim>\<open>response.json()\<close> gives: \<^verbatim>\<open>fetch\<close> rejects (no
  answer), or there is an answer with a status, whose body parses as JSON (\<open>Some\<close>) or
  does not (\<open>None\<close>, and \<^verbatim>\<open>json()\<close> rejects).
\<close>

datatype 'n fetch_outcome = FetchRejected | FetchResponse nat "'n jsval option"

text \<open>
  The browser, as far as the component uses it:
  \<^item> \<open>parse_date s\<close> is the time value of \<^verbatim>\<open>new Date(s)\<close> in milliseconds, \<open>None\<close>
    for an invalid date (whose time value is NaN);
  \<^item> \<open>locale_date v\<close> is \<^verbatim>\<open>new Date(v).toLocaleDateString()\<close>;
  \<^item> \<open>num_text n\<close> is the text of the number \<open>n\<close>;
  \<^item> \<open>gt_zero v\<close> is \<^verbatim>\<open>v > 0\<close>;
  \<^item> \<open>voices\<close> is \<^verbatim>\<open>speechSynthesis.getVoices()\<close>;
  \<^item> \<open>http url t\<close> is the outcome of a request to \<open>url\<close> made at time \<open>t\<close>.
\<close>

record 'n platform =
  parse_date :: "string \<Rightarrow> int option"
  locale_date :: "'n jsval \<Rightarrow> string"
  num_text :: "'n \<Rightarrow> string"
  gt_zero :: "'n jsval \<Rightarrow> bool"
  voices :: "voice list"
  http :: "string \<Rightarrow> int \<Rightarrow> 'n fetch_outcome"

text \<open>
  The page while it is open: the current render's state, the clock in milliseconds, the
  armed timeouts (the time each is due, and the render whose closures its callback
  holds), and what the component has done so far: the alerts shown, the errors logged,
  the requests sent (with their time) and the utterances handed to the speech sink.
\<close>

record 'n world =
  ui :: "'n app_state"
  clock :: int
  timers :: "(int \<times> 'n app_state) list"
  alerts :: "string list"
  console_errors :: "string list"
  requests :: "(int \<times> string) list"
  spoken :: "utterance list"

definition initial_world :: "int \<Rightarrow> 'n world" where
  "initial_world t0 =
     \<lparr>ui = initial_state, clock = t0, timers = [], alerts = [], console_errors = [],
      requests = [], spoken = []\<rparr>"

subsection \<open>\<^verbatim>\<open>fetchWeather\<close>\<close>

definition weather_url :: "string \<Rightarrow> string" where
  "weather_url c = ''http://localhost:3001/weather?city='' @ c"

text \<open>
  \<^verbatim>\<open>fetchWeather\<close> of render \<open>r\<close>: the status of the answer is not looked at; both
  rejections end in the \<^verbatim>\<open>catch\<close> branch.
\<close>

definition fetchWeather :: "'n platform \<Rightarrow> 'n app_state \<Rightarrow> 'n world \<Rightarrow> 'n world" where
  "fetchWeather p r w =
     (let w1 = w\<lparr>requests := requests w @ [(clock w, weather_url (city r))]\<rparr>
      in case http p (weather_url (city r)) (clock w) of
           FetchResponse st (Some data) \<Rightarrow> w1\<lparr>ui := (ui w1)\<lparr>weather := data\<rparr>\<rparr>
         | FetchResponse st None \<Rightarrow>
             w1\<lparr>console_errors := console_errors w1 @ [''Error fetching weather:'']\<rparr>
         | FetchRejected \<Rightarrow>
             w1\<lparr>console_errors := console_errors w1 @ [''Error fetching weather:'']\<rparr>)"

subsection \<open>\<^verbatim>\<open>speakWeather\<close>\<close>

text \<open>\<^verbatim>\<open>weather.length > 0\<close>.\<close>

fun length_gt_zero :: "'n platform \<Rightarrow> 'n jsval \<Rightarrow> js_error + bool" where
  "length_gt_zero p JUndefined = Inl TypeError"
| "length_gt_zero p JNull = Inl TypeError"
| "length_gt_zero p (JArr xs) = Inr (0 < length xs)"
| "length_gt_zero p (JStr s) = Inr (0 < length s)"
| "length_gt_zero p (JBool b) = Inr False"
| "length_gt_zero p (JNum n) = Inr False"
| "length_gt_zero p (JObj kvs) =
     Inr (case map_of kvs ''length'' of None \<Rightarrow> False | Some v \<Rightarrow> gt_zero p v)"

text \<open>The callback of \<^verbatim>\<open>weather.map\<close>: one sentence of the utterance.\<close>

definition sentence :: "'n platform \<Rightarrow> 'n jsval \<Rightarrow> js_error + string" where
  "sentence p item =
     bindE (get_member item ''date'') (\<lambda>d.
     bindE (get_member item ''temperature'') (\<lambda>t.
     bindE (get_member item ''feels_like'') (\<lambda>f.
     bindE (get_member item ''description'') (\<lambda>ds.
     Inr (''On '' @ locale_date p d @ '', the temperature will be '' @ to_string (num_text p) t
            @ '' degrees Celsius, feels like '' @ to_string (num_text p) f
            @ '' degrees, with '' @ to_string (num_text p) ds @ ''.'')))))"

definition intro :: "string \<Rightarrow> string" where
  "intro c = ''Here is the weather for the next 5 days in '' @ c @ ''.''"

text \<open>
  \<^verbatim>\<open>getVoices().find(voice => voice.name === accents[accent])\<close>; \<open>None\<close> is the
  \<^verbatim>\<open>undefined\<close> of \<^verbatim>\<open>find\<close>, which leaves the utterance without a voice of its own:
  the sink then speaks with its default voice.
\<close>

definition find_voice :: "'n platform \<Rightarrow> accent \<Rightarrow> voice option" where
  "find_voice p a = find (\<lambda>v. name v = accents a) (voices p)"

text \<open>
  \<^verbatim>\<open>speakWeather\<close> of render \<open>r\<close>. An exception leaves the function before anything
  has been done.
\<close>

definition speakWeather :: "'n platform \<Rightarrow> 'n app_state \<Rightarrow> 'n world \<Rightarrow> js_error + 'n world" where
  "speakWeather p r w =
     bindE (length_gt_zero p (weather r)) (\<lambda>nonempty.
       if nonempty then
         bindE (array_map (sentence p) (weather r)) (\<lambda>sentences.
           Inr (w\<lparr>spoken := spoken w @
                  [\<lparr>utterance_text = intro (city r) @ join_with '' '' sentences,
                    voice = find_voice p (accent r)\<rparr>]\<rparr>))
       else Inr w)"

definition handleAccentChange :: "accent \<Rightarrow> 'n world \<Rightarrow> 'n world" where
  "handleAccentChange newAccent w = w\<lparr>ui := (ui w)\<lparr>accent := newAccent\<rparr>\<rparr>"

subsection \<open>The sentence of a slot, in the spec's words\<close>

text \<open>
  "On {date}, the temperature will be {temperature} degrees Celsius, feels like
  {feltTemperature} degrees, with {description}.", where the date is the slot's
  \<^verbatim>\<open>date\<close> as the platform's locale writes it.
\<close>

definition slot_sentence :: "'n platform \<Rightarrow> 'n jsval \<Rightarrow> string" where
  "slot_sentence p s =
     ''On '' @ locale_date p (member s ''date'')
       @ '', the temperature will be '' @ to_string (num_text p) (member s ''temperature'')
       @ '' degrees Celsius, feels like '' @ to_string (num_text p) (member s ''feels_like'')
       @ '' degrees, with '' @ to_string (num_text p) (member s ''description'') @ ''.''"

subsection \<open>\<^verbatim>\<open>scheduleSpeech\<close> and the timers\<close>

text \<open>The \<^verbatim>\<open>onChange\<close> handler of the time picker.\<close>

definition setScheduleTime :: "string \<Rightarrow> 'n world \<Rightarrow> 'n world" where
  "setScheduleTime v w = w\<lparr>ui := (ui w)\<lparr>scheduleTime := v\<rparr>\<rparr>"

text \<open>
  \<^verbatim>\<open>setTimeout(callback, timeout)\<close> of the browser, where the callback is the one of
  render \<open>r\<close>. The timeout is a 32-bit signed integer of the platform (a \<^verbatim>\<open>long\<close>):
  the number given is reduced modulo \<open>2 ^ 32\<close> into that range, and a negative timeout
  counts as 0.
\<close>

definition setTimeout :: "'n app_state \<Rightarrow> int \<Rightarrow> 'n world \<Rightarrow> 'n world" where
  "setTimeout r timeout w =
     (let ms = sint (word_of_int timeout :: 32 word)
      in w\<lparr>timers := timers w @ [(clock w + max 0 ms, r)]\<rparr>)"

definition alert :: "string \<Rightarrow> 'n world \<Rightarrow> 'n world" where
  "alert msg w = w\<lparr>alerts := alerts w @ [msg]\<rparr>"

text \<open>
  \<^verbatim>\<open>scheduleSpeech\<close> of the current render. \<^verbatim>\<open>scheduleDate > now\<close> is false when
  \<^verbatim>\<open>scheduleDate\<close> is an invalid date.
\<close>

definition scheduleSpeech :: "'n platform \<Rightarrow> 'n world \<Rightarrow> 'n world" where
  "scheduleSpeech p w =
     (let now = clock w; scheduleDate = parse_date p (scheduleTime (ui w))
      in case scheduleDate of
           Some t \<Rightarrow>
             if t > now then setTimeout (ui w) (t - now) w
             else alert ''Scheduled time must be in the future.'' w
         | None \<Rightarrow> alert ''Scheduled time must be in the future.'' w)"

text \<open>
  The callback of the timeout, \<^verbatim>\<open>fetchWeather().then(speakWeather)\<close>, with both
  functions those of render \<open>r\<close>. \<^verbatim>\<open>fetchWeather\<close> catches its errors, so
  \<^verbatim>\<open>speakWeather\<close> always runs; an exception of \<^verbatim>\<open>speakWeather\<close> is a rejection
  that nothing handles. The request is answered in the same instant.
\<close>

definition announce :: "'n platform \<Rightarrow> 'n app_state \<Rightarrow> 'n world \<Rightarrow> 'n world" where
  "announce p r w =
     (let w1 = fetchWeather p r w
      in case speakWeather p r w1 of Inl e \<Rightarrow> w1 | Inr w2 \<Rightarrow> w2)"

text \<open>Firing timeouts, each at the time it is due.\<close>

fun fire_all :: "'n platform \<Rightarrow> (int \<times> 'n app_state) list \<Rightarrow> 'n world \<Rightarrow> 'n world" where
  "fire_all p [] w = w"
| "fire_all p ((due, r) # ts) w = fire_all p ts (announce p r (w\<lparr>clock := due\<rparr>))"

text \<open>
  \<open>d\<close> milliseconds pass: the timeouts due by then fire once, in the order of their due
  times (and of arming among equal ones), and are gone; the others stay armed.
\<close>

definition elapse :: "'n platform \<Rightarrow> nat \<Rightarrow> 'n world \<Rightarrow> 'n world" where
  "elapse p d w =
     (let t = clock w + int d;
          ready = sort_key fst (filter (\<lambda>tm. fst tm \<le> t) (timers w));
          waiting = filter (\<lambda>tm. \<not> fst tm \<le> t) (timers w)
      in (fire_all p ready (w\<lparr>timers := waiting\<rparr>))\<lparr>clock := t\<rparr>)"

section \<open>Sample data\<close>

text \<open>Decimal digits of a natural number.\<close>

fun decimal :: "nat \<Rightarrow> string" where
  "decimal n = (if n < 10 then [char_of (48 + n)] else decimal (n div 10) @ [char_of (48 + n mod 10)])"

definition sample_record :: "nat \<Rightarrow> nat jsval" where
  "sample_record i =
     JObj [(''dt'', JNum i),
           (''main'', JObj [(''temp'', JNum (i + 10)), (''feels_like'', JNum (i + 7))]),
           (''weather'', JArr [JObj [(''id'', JNum 500), (''description'', JStr ''light rain'')]]),
           (''dt_txt'', JStr (''day '' @ decimal i))]"

definition sample_provider :: "nat \<Rightarrow> string \<Rightarrow> nat upstream" where
  "sample_provider k url = HttpResponse 200 (JObj [(''cod'', JStr ''200''),
     (''list'', JArr (map sample_record [0..<k]))])"

text \<open>
  A browser in the UTC time zone that knows three voices and reaches a backend with two
  slots to give. Its date parser is cut down to the inputs used below; 1767225600000 is
  2026-01-01T00:00 UTC.
\<close>

definition sample_dates :: "string \<Rightarrow> int option" where
  "sample_dates s =
     (if s = ''2026-02-01T00:00'' then Some 1769904000000
      else if s = ''2026-01-01T00:10'' then Some 1767226200000
      else if s = ''2026-01-01T00:05'' then Some 1767225900000
      else if s = ''2026-01-01T00:00'' then Some 1767225600000
      else if s = ''2025-12-31T23:00'' then Some 1767222000000
      else None)"

definition sample_voices :: "voice list" where
  "sample_voices =
     [\<lparr>name = ''Google US English'', lang = ''en-US''\<rparr>,
      \<lparr>name = ''Google UK English Male'', lang = ''en-GB''\<rparr>,
      \<lparr>name = ''Google UK English Female'', lang = ''en-GB''\<rparr>]"

definition sample_bundle :: "nat jsval" where
  "sample_bundle = JArr [forecast_slot (sample_record 0), forecast_slot (sample_record 1)]"

definition sample_platform :: "nat platform" where
  "sample_platform =
     \<lparr>parse_date = sample_dates,
      locale_date = (\<lambda>v. case v of JStr s \<Rightarrow> s | _ \<Rightarrow> ''Invalid Date''),
      num_text = decimal,
      gt_zero = (\<lambda>v. case v of JNum n \<Rightarrow> 0 < n | _ \<Rightarrow> False),
      voices = sample_voices,
      http = (\<lambda>url t. FetchResponse 200 (Some sample_bundle))\<rparr>"

text \<open>
  The same browser, reaching a backend that gives the two slots until 2026-01-01T00:10
  and an empty list from then on.
\<close>

definition emptying_platform :: "nat platform" where
  "emptying_platform =
     sample_platform\<lparr>http := (\<lambda>url t.
        if t < 1767226200000 then FetchResponse 200 (Some sample_bundle)
        else FetchResponse 200 (Some (JArr [])))\<rparr>"

text \<open>The page as it opens at 2026-01-01T00:00 UTC, with a time typed into the picker.\<close>

definition sample_world :: "string \<Rightarrow> nat world" where
  "sample_world picked =
     (initial_world 1767225600000)\<lparr>ui := initial_state\<lparr>scheduleTime := picked\<rparr>\<rparr>"

section \<open>Properties of the backend\<close>

lemma to_slot_record:
  assumes "forecast_record r"
  shows "to_slot r = Inr (forecast_slot r)"
proof -
  from assms obtain kvs where r: "r = JObj kvs"
    by (cases r) (simp_all add: forecast_record_def)
  from assms r obtain ms where m: "member r ''main'' = JObj ms"
    by (cases "member r ''main''") (simp_all add: forecast_record_def)
  from assms r obtain w ws where ws: "member r ''weather'' = JArr (w # ws)"
    by (cases "member r ''weather''" rule: first_condition.cases)
       (simp_all add: forecast_record_def)
  from assms ws obtain ds where w: "w = JObj ds"
    by (cases w) (simp_all add: forecast_record_def)
  from r m ws w show ?thesis
    by (simp add: to_slot_def forecast_slot_def bindE_def)
qed

lemma map_items_records:
  "\<forall>r \<in> set rs. forecast_record r \<Longrightarrow> map_items to_slot rs = Inr (map forecast_slot rs)"
  by (induction rs) (simp_all add: to_slot_record bindE_def)

lemma map_items_length:
  "map_items f xs = Inr ys \<Longrightarrow> length ys = length xs"
  by (induction xs arbitrary: ys) (auto simp: bindE_def split: sum.splits)

lemma map_items_nth:
  "map_items f xs = Inr ys \<Longrightarrow> i < length xs \<Longrightarrow> f (xs ! i) = Inr (ys ! i)"
proof (induction xs arbitrary: ys i)
  case Nil
  then show ?case by simp
next
  case (Cons x xs)
  then show ?case
    by (cases i) (auto simp: bindE_def split: sum.splits)
qed

lemma member_list_object:
  "member d ''list'' = JArr recs \<Longrightarrow> get_member d ''list'' = Inr (JArr recs)"
  by (cases d) simp_all

lemma weather_try_list:
  assumes "provider (forecast_url c) = HttpResponse st d" "200 \<le> st" "st < 300"
    and "member d ''list'' = JArr recs"
  shows "weather_try provider c = bindE (map_items to_slot (take 40 recs)) (\<lambda>slots. Inr (JArr slots))"
  using assms by (simp add: weather_try_def bindE_def member_list_object)

text \<open>
  Claim C1. For every city, when the provider answers with a list of at least 40 records,
  the endpoint answers with status 200 and exactly 40 slots, the \<open>i\<close>-th being the slot
  of the \<open>i\<close>-th record of the list: its \<^verbatim>\<open>dt_txt\<close>, \<^verbatim>\<open>main.temp\<close>,
  \<^verbatim>\<open>main.feels_like\<close> and \<^verbatim>\<open>weather[0].description\<close>.
\<close>

theorem weather_first_40_slots:
  assumes "provider (forecast_url c) = HttpResponse st d" and "200 \<le> st" and "st < 300"
    and "member d ''list'' = JArr recs"
    and "40 \<le> length recs"
    and "\<forall>r \<in> set (take 40 recs). forecast_record r"
  shows "\<exists>slots. weather_handler provider c = \<lparr>status = 200, body = JArr slots\<rparr>
           \<and> length slots = 40
           \<and> (\<forall>i < 40. slots ! i = forecast_slot (recs ! i))"
proof -
  let ?slots = "map forecast_slot (take 40 recs)"
  have "weather_try provider c = Inr (JArr ?slots)"
    using assms by (simp add: weather_try_list map_items_records bindE_def)
  then have "weather_handler provider c = \<lparr>status = 200, body = JArr ?slots\<rparr>"
    by (simp add: weather_handler_def)
  moreover have "length ?slots = 40"
    using assms(5) by simp
  moreover have "\<forall>i < 40. ?slots ! i = forecast_slot (recs ! i)"
    using assms(5) by simp
  ultimately show ?thesis by blast
qed

lemma forecast_record_sample: "forecast_record (sample_record i)"
  by (simp add: forecast_record_def sample_record_def)

theorem weather_first_40_slots_witness:
  "\<exists>slots. weather_handler (sample_provider 43) ''Lagos'' = \<lparr>status = 200, body = JArr slots\<rparr>
     \<and> length slots = 40
     \<and> (\<forall>i < 40. slots ! i = forecast_slot (map sample_record [0..<43] ! i))"
proof -
  let ?recs = "map sample_record [0..<43]"
  have ok: "\<forall>r \<in> set (take 40 ?recs). forecast_record r"
  proof
    fix r assume "r \<in> set (take 40 ?recs)"
    then have "r \<in> set ?recs" by (rule in_set_takeD)
    then obtain i where "r = sample_record i" by auto
    then show "forecast_record r" by (simp add: forecast_record_sample)
  qed
  have resp: "sample_provider 43 (forecast_url ''Lagos'')
      = HttpResponse 200 (JObj [(''cod'', JStr ''200''), (''list'', JArr ?recs)])"
    by (simp add: sample_provider_def)
  have lst: "member (JObj [(''cod'', JStr ''200''), (''list'', JArr ?recs)]) ''list'' = JArr ?recs"
    by simp
  have len: "40 \<le> length ?recs"
    by simp
  show ?thesis
    using weather_first_40_slots [of "sample_provider 43" "''Lagos''", OF resp _ _ lst len ok] by simp
qed


text \<open>
  Claim C4. For every city, when the provider answers with a list of \<open>K < 40\<close> records,
  the endpoint answers with status 200 and exactly \<open>K\<close> slots, one per record and in
  the records' order: nothing is padded and there is no error.
\<close>

theorem weather_fewer_than_40_slots:
  assumes "provider (forecast_url c) = HttpResponse st d" and "200 \<le> st" and "st < 300"
    and "member d ''list'' = JArr recs"
    and "length recs < 40"
    and "\<forall>r \<in> set recs. forecast_record r"
  shows "\<exists>slots. weather_handler provider c = \<lparr>status = 200, body = JArr slots\<rparr>
           \<and> length slots = length recs
           \<and> (\<forall>i < length recs. slots ! i = forecast_slot (recs ! i))"
proof -
  have "take 40 recs = recs"
    using assms(5) by simp
  then have "weather_try provider c = Inr (JArr (map forecast_slot recs))"
    using assms by (simp add: weather_try_list map_items_records bindE_def)
  then have "weather_handler provider c = \<lparr>status = 200, body = JArr (map forecast_slot recs)\<rparr>"
    by (simp add: weather_handler_def)
  then show ?thesis by simp
qed

theorem weather_fewer_than_40_slots_witness:
  "\<exists>slots. weather_handler (sample_provider 3) ''Lagos'' = \<lparr>status = 200, body = JArr slots\<rparr>
     \<and> length slots = 3
     \<and> (\<forall>i < 3. slots ! i = forecast_slot (map sample_record [0..<3] ! i))"
proof -
  let ?recs = "map sample_record [0..<3]"
  have ok: "\<forall>r \<in> set ?recs. forecast_record r"
    by (simp add: forecast_record_sample)
  have resp: "sample_provider 3 (forecast_url ''Lagos'')
      = HttpResponse 200 (JObj [(''cod'', JStr ''200''), (''list'', JArr ?recs)])"
    by (simp add: sample_provider_def)
  have lst: "member (JObj [(''cod'', JStr ''200''), (''list'', JArr ?recs)]) ''list'' = JArr ?recs"
    by simp
  have len: "length ?recs < 40"
    by simp
  show ?thesis
    using weather_fewer_than_40_slots [of "sample_provider 3" "''Lagos''", OF resp _ _ lst len ok]
    by simp
qed

lemma weather_try_failure:
  assumes "upstream_failure (provider (forecast_url c))"
  shows "\<exists>e. weather_try provider c = Inl e"
proof (cases "provider (forecast_url c)")
  case NetworkError
  then show ?thesis by (simp add: weather_try_def bindE_def)
next
  case (HttpResponse st d)
  show ?thesis
  proof (cases "200 \<le> st \<and> st < 300")
    case False
    with HttpResponse show ?thesis by (auto simp: weather_try_def bindE_def)
  next
    case True
    with HttpResponse assms have na: "\<not> is_array (member d ''list'')" by auto
    have "\<exists>e. bindE (bindE (get_member d ''list'') slice_5x8)
             (\<lambda>wd. bindE (array_map to_slot wd) (\<lambda>slots. Inr (JArr slots))) = Inl e"
    proof (cases d)
      case (JObj kvs)
      with na show ?thesis
        by (cases "member (JObj kvs) ''list''") (simp_all add: bindE_def)
    qed (simp_all add: bindE_def)
    with HttpResponse True show ?thesis by (simp add: weather_try_def bindE_def)
  qed
qed

lemma weather_try_success:
  assumes "weather_try provider c = Inr v"
  shows "\<exists>st d recs slots. provider (forecast_url c) = HttpResponse st d
           \<and> member d ''list'' = JArr recs \<and> v = JArr slots
           \<and> map_items to_slot (take 40 recs) = Inr slots"
proof (cases "provider (forecast_url c)")
  case NetworkError
  with assms show ?thesis by (simp add: weather_try_def bindE_def)
next
  case (HttpResponse st d)
  with assms have ok: "200 \<le> st \<and> st < 300"
    by (auto simp: weather_try_def bindE_def split: if_splits)
  with HttpResponse assms have run:
    "bindE (bindE (get_member d ''list'') slice_5x8)
       (\<lambda>wd. bindE (array_map to_slot wd) (\<lambda>slots. Inr (JArr slots))) = Inr v"
    by (simp add: weather_try_def bindE_def)
  then obtain l where l: "get_member d ''list'' = Inr l"
    by (cases "get_member d ''list''") (simp_all add: bindE_def)
  with run obtain recs where recs: "l = JArr recs"
    by (cases l) (simp_all add: bindE_def)
  from l recs have m: "member d ''list'' = JArr recs"
    by (cases d) simp_all
  from run l recs obtain slots where "map_items to_slot (take 40 recs) = Inr slots" "v = JArr slots"
    by (cases "map_items to_slot (take 40 recs)") (auto simp: bindE_def)
  with HttpResponse m show ?thesis by blast
qed

text \<open>
  Claim C2. On every upstream failure (no answer, a status outside 2xx, a body without a
  list) the endpoint answers with status 500 and the body
  \<^verbatim>\<open>{error: 'Error fetching weather data'}\<close>, the same for every failure. And there is
  no partial result: an answer of the endpoint is either that one, or status 200 with a
  slot for each of the first 40 records of the list (for all of them, when they are
  fewer).
\<close>

theorem upstream_failure_generic_500:
  "(upstream_failure (provider (forecast_url c)) \<longrightarrow> weather_handler provider c
          = \<lparr>status = 500,
            body = JObj [(''error'', JStr ''Error fetching weather data'')]\<rparr>)
   \<and> (weather_handler provider c
          = \<lparr>status = 500,
            body = JObj [(''error'', JStr ''Error fetching weather data'')]\<rparr>
       \<or> (\<exists>st d recs slots. provider (forecast_url c) = HttpResponse st d
             \<and> member d ''list'' = JArr recs
             \<and> weather_handler provider c = \<lparr>status = 200, body = JArr slots\<rparr>
             \<and> length slots = min 40 (length recs)
             \<and> (\<forall>i < length slots. to_slot (recs ! i) = Inr (slots ! i))))"
proof
  show "upstream_failure (provider (forecast_url c)) \<longrightarrow> weather_handler provider c
          = \<lparr>status = 500,
            body = JObj [(''error'', JStr ''Error fetching weather data'')]\<rparr>"
  proof
    assume "upstream_failure (provider (forecast_url c))"
    then obtain e where "weather_try provider c = Inl e"
      using weather_try_failure by blast
    then show "weather_handler provider c
          = \<lparr>status = 500,
            body = JObj [(''error'', JStr ''Error fetching weather data'')]\<rparr>"
      by (simp add: weather_handler_def error_response_def)
  qed
next
  show "weather_handler provider c
          = \<lparr>status = 500,
            body = JObj [(''error'', JStr ''Error fetching weather data'')]\<rparr>
       \<or> (\<exists>st d recs slots. provider (forecast_url c) = HttpResponse st d
             \<and> member d ''list'' = JArr recs
             \<and> weather_handler provider c = \<lparr>status = 200, body = JArr slots\<rparr>
             \<and> length slots = min 40 (length recs)
             \<and> (\<forall>i < length slots. to_slot (recs ! i) = Inr (slots ! i)))"
  proof (cases "weather_try provider c")
    case (Inl e)
    then show ?thesis by (simp add: weather_handler_def error_response_def)
  next
    case (Inr v)
    then obtain st d recs slots where *: "provider (forecast_url c) = HttpResponse st d"
        "member d ''list'' = JArr recs" "v = JArr slots"
        "map_items to_slot (take 40 recs) = Inr slots"
      using weather_try_success by blast
    from *(4) have len: "length slots = min 40 (length recs)"
      by (auto dest: map_items_length)
    have "\<forall>i < length slots. to_slot (recs ! i) = Inr (slots ! i)"
    proof (intro allI impI)
      fix i assume "i < length slots"
      with len have i: "i < length (take 40 recs)" by simp
      from map_items_nth [OF *(4) i] i show "to_slot (recs ! i) = Inr (slots ! i)" by simp
    qed
    with Inr * len show ?thesis
      by (auto simp: weather_handler_def error_response_def)
  qed
qed

theorem upstream_failure_generic_500_witness:
  "weather_handler (\<lambda>u. NetworkError) ''Lagos'' = (\<lparr>status = 500,
            body = JObj [(''error'', JStr ''Error fetching weather data'')]\<rparr> :: nat response)
   \<and> weather_handler (\<lambda>u. HttpResponse 404
         (JObj [(''cod'', JStr ''404''), (''message'', JStr ''city not found'')])) ''Atlantis''
       = (\<lparr>status = 500,
            body = JObj [(''error'', JStr ''Error fetching weather data'')]\<rparr> :: nat response)
   \<and> weather_handler (\<lambda>u. HttpResponse 200 (JStr ''<html>Bad gateway'')) ''Lagos''
       = (\<lparr>status = 500,
            body = JObj [(''error'', JStr ''Error fetching weather data'')]\<rparr> :: nat response)
   \<and> weather_handler (\<lambda>u. HttpResponse 200
         (JObj [(''list'', JArr [sample_record 0, JNull, sample_record 2])])) ''Lagos''
       = \<lparr>status = 500,
            body = JObj [(''error'', JStr ''Error fetching weather data'')]\<rparr>"
proof -
  have a: "upstream_failure ((\<lambda>u. NetworkError :: nat upstream) (forecast_url ''Lagos''))"
    by simp
  have b: "upstream_failure ((\<lambda>u. HttpResponse 404
      (JObj [(''cod'', JStr ''404''), (''message'', JStr ''city not found'')]) :: nat upstream)
      (forecast_url ''Atlantis''))"
    by simp
  have c: "upstream_failure ((\<lambda>u. HttpResponse 200 (JStr ''<html>Bad gateway'') :: nat upstream)
      (forecast_url ''Lagos''))"
    by simp
  let ?p = "\<lambda>u::string. HttpResponse 200
         (JObj [(''list'', JArr [sample_record 0, JNull, sample_record 2])])"
  have d: "\<not> (\<exists>slots. weather_handler ?p ''Lagos'' = \<lparr>status = 200, body = JArr slots\<rparr>)"
    by (simp add: weather_handler_def weather_try_def bindE_def to_slot_def sample_record_def
        error_response_def)
  from d upstream_failure_generic_500 [of ?p "''Lagos''"]
  have "weather_handler ?p ''Lagos'' = \<lparr>status = 500,
            body = JObj [(''error'', JStr ''Error fetching weather data'')]\<rparr>" by blast
  with a b c show ?thesis
    using upstream_failure_generic_500 [of "\<lambda>u. NetworkError :: nat upstream" "''Lagos''"]
      upstream_failure_generic_500 [of "\<lambda>u. HttpResponse 404
         (JObj [(''cod'', JStr ''404''), (''message'', JStr ''city not found'')]) :: nat upstream"
         "''Atlantis''"]
      upstream_failure_generic_500 [of "\<lambda>u. HttpResponse 200 (JStr ''<html>Bad gateway'') :: nat upstream"
         "''Lagos''"]
    by blast
qed

section \<open>Properties of the frontend\<close>

lemma sentence_object:
  "is_object x \<Longrightarrow> sentence p x = Inr (slot_sentence p x)"
  by (cases x) (simp_all add: sentence_def slot_sentence_def bindE_def)

lemma map_items_sentences:
  "\<forall>x \<in> set xs. is_object x \<Longrightarrow> map_items (sentence p) xs = Inr (map (slot_sentence p) xs)"
  by (induction xs) (simp_all add: sentence_object bindE_def)

lemma join_with_concat:
  "join_with sep (x # xs) = x @ concat (map (\<lambda>y. sep @ y) xs)"
  by (induction xs arbitrary: x) simp_all

lemma speakWeather_bundle:
  assumes "weather r = JArr (s # rest)" and "\<forall>x \<in> set (s # rest). is_object x"
  shows "speakWeather p r w =
     Inr (w\<lparr>spoken := spoken w @
        [\<lparr>utterance_text = intro (city r) @ slot_sentence p s
              @ concat (map (\<lambda>x. '' '' @ slot_sentence p x) rest),
          voice = find_voice p (accent r)\<rparr>]\<rparr>)"
proof -
  have "map_items (sentence p) (s # rest) = Inr (map (slot_sentence p) (s # rest))"
    using assms(2) by (rule map_items_sentences)
  then have "array_map (sentence p) (weather r) = Inr (slot_sentence p s # map (slot_sentence p) rest)"
    using assms(1) by simp
  moreover have "length_gt_zero p (weather r) = Inr True"
    using assms(1) by simp
  ultimately show ?thesis
    by (simp add: speakWeather_def bindE_def join_with_concat comp_def)
qed

text \<open>
  What \<^verbatim>\<open>speakWeather\<close> says when the list it reads is a non-empty bundle of slots:
  the intro sentence followed by one sentence per slot, in the order of the bundle. The
  sentence of the first slot follows the intro directly; each later one is preceded by a
  single space.
\<close>

lemma speakWeather_utterance:
  assumes "weather r = JArr (s # rest)" and "\<forall>x \<in> set (s # rest). is_object x"
  shows "\<exists>u. speakWeather p r w = Inr (w\<lparr>spoken := spoken w @ [u]\<rparr>)
           \<and> utterance_text u = intro (city r) @ slot_sentence p s
                @ concat (map (\<lambda>x. '' '' @ slot_sentence p x) rest)"
proof -
  let ?u = "\<lparr>utterance_text = intro (city r) @ slot_sentence p s
                @ concat (map (\<lambda>x. '' '' @ slot_sentence p x) rest),
            voice = find_voice p (accent r)\<rparr>"
  have "speakWeather p r w = Inr (w\<lparr>spoken := spoken w @ [?u]\<rparr>)"
    using assms by (rule speakWeather_bundle)
  moreover have "utterance_text ?u = intro (city r) @ slot_sentence p s
                @ concat (map (\<lambda>x. '' '' @ slot_sentence p x) rest)"
    by simp
  ultimately show ?thesis by blast
qed

text \<open>
  Claim C6. For every accent key and every voice list of the platform, a speech request
  is made; if the list has a voice whose name equals the accent table's entry for the
  key, the request carries such a voice of the list, and if the list has no voice of
  that name, the request carries no voice (the sink speaks with its default voice) and
  no error arises.
\<close>

theorem accent_voice_selection:
  assumes "weather r = JArr (s # rest)" and "\<forall>x \<in> set (s # rest). is_object x"
  shows "\<exists>u. speakWeather p r w = Inr (w\<lparr>spoken := spoken w @ [u]\<rparr>)
     \<and> ((\<exists>v \<in> set (voices p). name v = accents (accent r))
           \<longrightarrow> (\<exists>v \<in> set (voices p). voice u = Some v \<and> name v = accents (accent r)))
     \<and> ((\<forall>v \<in> set (voices p). name v \<noteq> accents (accent r)) \<longrightarrow> voice u = None)"
proof -
  let ?P = "\<lambda>v. name v = accents (accent r)"
  have some: "(\<exists>v \<in> set (voices p). ?P v)
      \<longrightarrow> (\<exists>v \<in> set (voices p). find_voice p (accent r) = Some v \<and> ?P v)"
  proof
    assume "\<exists>v \<in> set (voices p). ?P v"
    then have "find ?P (voices p) \<noteq> None"
      by (auto simp: find_None_iff)
    then obtain v where v: "find ?P (voices p) = Some v" by blast
    then have "v \<in> set (voices p) \<and> ?P v"
      by (auto simp: find_Some_iff)
    with v show "\<exists>v \<in> set (voices p). find_voice p (accent r) = Some v \<and> ?P v"
      by (auto simp: find_voice_def)
  qed
  have none: "(\<forall>v \<in> set (voices p). name v \<noteq> accents (accent r)) \<longrightarrow> find_voice p (accent r) = None"
    by (auto simp: find_voice_def find_None_iff)
  let ?u = "\<lparr>utterance_text = intro (city r) @ slot_sentence p s
                @ concat (map (\<lambda>x. '' '' @ slot_sentence p x) rest),
            voice = find_voice p (accent r)\<rparr>"
  have "speakWeather p r w = Inr (w\<lparr>spoken := spoken w @ [?u]\<rparr>)"
    using assms by (rule speakWeather_bundle)
  moreover have "voice ?u = find_voice p (accent r)"
    by simp
  ultimately show ?thesis
    using some none by metis
qed


theorem accent_voice_selection_witness:
  "(\<exists>u. speakWeather sample_platform (initial_state\<lparr>weather := sample_bundle\<rparr>) (sample_world '''')
          = Inr ((sample_world '''')\<lparr>spoken := spoken (sample_world '''') @ [u]\<rparr>)
        \<and> voice u = Some \<lparr>name = ''Google UK English Male'', lang = ''en-GB''\<rparr>)
   \<and> (\<exists>u. speakWeather sample_platform
            (initial_state\<lparr>accent := french_male, weather := sample_bundle\<rparr>) (sample_world '''')
          = Inr ((sample_world '''')\<lparr>spoken := spoken (sample_world '''') @ [u]\<rparr>)
        \<and> voice u = None)"
proof -
  let ?s0 = "forecast_slot (sample_record 0)" and ?s1 = "forecast_slot (sample_record 1)"
  let ?r = "initial_state\<lparr>weather := sample_bundle\<rparr> :: nat app_state"
  let ?f = "initial_state\<lparr>accent := french_male, weather := sample_bundle\<rparr> :: nat app_state"
  have o: "\<forall>x \<in> set (?s0 # [?s1]). is_object x"
    by (simp add: forecast_slot_def)
  have wr: "weather ?r = JArr (?s0 # [?s1])" and wf: "weather ?f = JArr (?s0 # [?s1])"
    by (simp_all add: sample_bundle_def)
  have present: "\<exists>v \<in> set (voices sample_platform). name v = accents (accent ?r)"
    by (simp add: sample_platform_def sample_voices_def initial_state_def)
  have absent: "\<forall>v \<in> set (voices sample_platform). name v \<noteq> accents (accent ?f)"
    by (simp add: sample_platform_def sample_voices_def)
  have only: "\<And>v. v \<in> set (voices sample_platform) \<Longrightarrow> name v = accents (accent ?r)
      \<Longrightarrow> v = \<lparr>name = ''Google UK English Male'', lang = ''en-GB''\<rparr>"
    by (auto simp: sample_platform_def sample_voices_def initial_state_def)
  from accent_voice_selection [OF wr o, of sample_platform "sample_world ''''"] present only
  have first: "\<exists>u. speakWeather sample_platform ?r (sample_world '''')
          = Inr ((sample_world '''')\<lparr>spoken := spoken (sample_world '''') @ [u]\<rparr>)
        \<and> voice u = Some \<lparr>name = ''Google UK English Male'', lang = ''en-GB''\<rparr>"
    by metis
  from accent_voice_selection [OF wf o, of sample_platform "sample_world ''''"] absent
  have second: "\<exists>u. speakWeather sample_platform ?f (sample_world '''')
          = Inr ((sample_world '''')\<lparr>spoken := spoken (sample_world '''') @ [u]\<rparr>)
        \<and> voice u = None"
    by metis
  from first second show ?thesis by blast
qed

lemma fetchWeather_spoken: "spoken (fetchWeather p r w) = spoken w"
  by (simp add: fetchWeather_def Let_def split: fetch_outcome.splits option.splits)

lemma fetchWeather_requests:
  "requests (fetchWeather p r w) = requests w @ [(clock w, weather_url (city r))]"
  by (simp add: fetchWeather_def Let_def split: fetch_outcome.splits option.splits)

lemma speakWeather_requests:
  "speakWeather p r w = Inr w' \<Longrightarrow> requests w' = requests w"
  by (auto simp: speakWeather_def bindE_def split: sum.splits if_splits)

lemma announce_requests:
  "requests (announce p r w) = requests w @ [(clock w, weather_url (city r))]"
  by (auto simp: announce_def Let_def fetchWeather_requests split: sum.splits
      dest: speakWeather_requests)

text \<open>
  Claim C10. When the fetch of \<^verbatim>\<open>fetchWeather\<close> fails (no answer, or an answer whose
  body does not parse), the error is logged and nothing else happens: the component's
  state, the stored forecast with it, is unchanged.
\<close>

theorem fetch_failure_keeps_state:
  assumes "http p (weather_url (city r)) (clock w) = FetchRejected
         \<or> (\<exists>st. http p (weather_url (city r)) (clock w) = FetchResponse st None)"
  shows "fetchWeather p r w =
           w\<lparr>console_errors := console_errors w @ [''Error fetching weather:''],
             requests := requests w @ [(clock w, weather_url (city r))]\<rparr>
       \<and> ui (fetchWeather p r w) = ui w"
  using assms by (auto simp: fetchWeather_def Let_def)

theorem fetch_failure_keeps_state_witness:
  "ui (fetchWeather (sample_platform\<lparr>http := (\<lambda>url t. FetchRejected)\<rparr>) initial_state
        ((sample_world '''')\<lparr>ui := initial_state\<lparr>weather := sample_bundle\<rparr>\<rparr>))
     = initial_state\<lparr>weather := sample_bundle\<rparr>
   \<and> ui (fetchWeather (sample_platform\<lparr>http := (\<lambda>url t. FetchResponse 502 None)\<rparr>) initial_state
        ((sample_world '''')\<lparr>ui := initial_state\<lparr>weather := sample_bundle\<rparr>\<rparr>))
     = initial_state\<lparr>weather := sample_bundle\<rparr>"
proof -
  let ?w = "(sample_world '''')\<lparr>ui := initial_state\<lparr>weather := sample_bundle\<rparr>\<rparr>"
  let ?p1 = "sample_platform\<lparr>http := (\<lambda>url t. FetchRejected)\<rparr>"
  let ?p2 = "sample_platform\<lparr>http := (\<lambda>url t. FetchResponse 502 None)\<rparr>"
  have a: "http ?p1 (weather_url (city (initial_state :: nat app_state))) (clock ?w) = FetchRejected
      \<or> (\<exists>st. http ?p1 (weather_url (city (initial_state :: nat app_state))) (clock ?w)
            = FetchResponse st None)"
    by simp
  have b: "http ?p2 (weather_url (city (initial_state :: nat app_state))) (clock ?w) = FetchRejected
      \<or> (\<exists>st. http ?p2 (weather_url (city (initial_state :: nat app_state))) (clock ?w)
            = FetchResponse st None)"
    by simp
  from fetch_failure_keeps_state [OF a] fetch_failure_keeps_state [OF b]
  show ?thesis by simp
qed

subsection \<open>Scheduling\<close>

lemma fetchWeather_alerts_update:
  "fetchWeather p r (alerts_update f w) = alerts_update f (fetchWeather p r w)"
  by (simp add: fetchWeather_def Let_def split: fetch_outcome.splits option.splits)

lemma speakWeather_alerts_update:
  "speakWeather p r (alerts_update f w) =
     (case speakWeather p r w of Inl e \<Rightarrow> Inl e | Inr w' \<Rightarrow> Inr (alerts_update f w'))"
  by (simp add: speakWeather_def bindE_def split: sum.splits)

lemma announce_alerts_update:
  "announce p r (alerts_update f w) = alerts_update f (announce p r w)"
  by (simp add: announce_def Let_def fetchWeather_alerts_update speakWeather_alerts_update
      split: sum.splits)

lemma fire_all_alerts_update:
  "fire_all p ts (alerts_update f w) = alerts_update f (fire_all p ts w)"
proof (induction ts arbitrary: w)
  case Nil
  then show ?case by simp
next
  case (Cons tm ts)
  obtain due r where tm: "tm = (due, r)" by (cases tm)
  have swap: "(alerts_update f w)\<lparr>clock := due\<rparr> = alerts_update f (w\<lparr>clock := due\<rparr>)"
    by simp
  show ?case
    by (simp only: tm fire_all.simps swap announce_alerts_update Cons.IH)
qed

lemma elapse_alerts_update:
  "elapse p d (alerts_update f w) = alerts_update f (elapse p d w)"
proof -
  have swap: "(alerts_update f w)\<lparr>timers := ws\<rparr> = alerts_update f (w\<lparr>timers := ws\<rparr>)" for ws
    by simp
  have "timers (alerts_update f w) = timers w" and "clock (alerts_update f w) = clock w"
    by simp_all
  then show ?thesis
    unfolding elapse_def Let_def
    by (simp only: swap fire_all_alerts_update) simp
qed

lemma alert_no_request:
  "requests (elapse p d (alert msg w)) = requests (elapse p d w)"
  by (simp add: alert_def elapse_alerts_update)

text \<open>
  Claim C3. When the target time is not strictly later than the current time,
  \<^verbatim>\<open>scheduleSpeech\<close> shows the alert and does nothing else: no timeout is armed, and
  whatever time passes afterwards, the requests sent to the backend are those that would
  have been sent without this scheduling.
\<close>

theorem past_time_rejected:
  assumes "parse_date p (scheduleTime (ui w)) = Some t" and "t \<le> clock w"
  shows "scheduleSpeech p w = w\<lparr>alerts := alerts w @ [''Scheduled time must be in the future.'']\<rparr>
       \<and> timers (scheduleSpeech p w) = timers w
       \<and> (\<forall>d. requests (elapse p d (scheduleSpeech p w)) = requests (elapse p d w))"
proof -
  have s: "scheduleSpeech p w = alert ''Scheduled time must be in the future.'' w"
    using assms by (simp add: scheduleSpeech_def Let_def)
  then show ?thesis
    by (simp add: alert_no_request) (simp add: alert_def)
qed

theorem past_time_rejected_witness:
  "scheduleSpeech sample_platform (sample_world ''2025-12-31T23:00'')
     = (sample_world ''2025-12-31T23:00'')\<lparr>alerts := [''Scheduled time must be in the future.'']\<rparr>
   \<and> timers (scheduleSpeech sample_platform (sample_world ''2026-01-01T00:00'')) = []
   \<and> requests (elapse sample_platform 86400000
        (scheduleSpeech sample_platform (sample_world ''2026-01-01T00:00''))) = []"
proof -
  let ?past = "sample_world ''2025-12-31T23:00''" and ?now = "sample_world ''2026-01-01T00:00''"
  have p1: "parse_date sample_platform (scheduleTime (ui ?past)) = Some 1767222000000"
    by (simp add: sample_platform_def sample_world_def sample_dates_def)
  have c1: "1767222000000 \<le> clock ?past"
    by (simp add: sample_world_def initial_world_def)
  have p2: "parse_date sample_platform (scheduleTime (ui ?now)) = Some 1767225600000"
    by (simp add: sample_platform_def sample_world_def sample_dates_def)
  have c2: "1767225600000 \<le> clock ?now"
    by (simp add: sample_world_def initial_world_def)
  have e: "alerts ?past = [] \<and> timers ?now = []
      \<and> requests (elapse sample_platform 86400000 ?now) = []"
    by (simp add: sample_world_def initial_world_def elapse_def)
  from past_time_rejected [OF p1 c1] e
  have a: "scheduleSpeech sample_platform ?past
      = ?past\<lparr>alerts := [''Scheduled time must be in the future.'']\<rparr>"
    by simp
  from past_time_rejected [OF p2 c2] e
  have b: "timers (scheduleSpeech sample_platform ?now) = []"
    by simp
  from past_time_rejected [OF p2 c2]
  have "requests (elapse sample_platform 86400000 (scheduleSpeech sample_platform ?now))
      = requests (elapse sample_platform 86400000 ?now)"
    by blast
  with e have c: "requests (elapse sample_platform 86400000 (scheduleSpeech sample_platform ?now)) = []"
    by simp
  from a b c show ?thesis by blast
qed

text \<open>
  Claim C8. When the text of the time picker does not parse to a valid date,
  \<^verbatim>\<open>scheduleSpeech\<close> does what it does for a past time: it shows the same alert and
  arms no timeout, so that no request to the backend comes of it.
\<close>

theorem invalid_time_rejected:
  assumes "parse_date p (scheduleTime (ui w)) = None"
  shows "scheduleSpeech p w = w\<lparr>alerts := alerts w @ [''Scheduled time must be in the future.'']\<rparr>
       \<and> timers (scheduleSpeech p w) = timers w
       \<and> (\<forall>d. requests (elapse p d (scheduleSpeech p w)) = requests (elapse p d w))"
proof -
  have s: "scheduleSpeech p w = alert ''Scheduled time must be in the future.'' w"
    using assms by (simp add: scheduleSpeech_def Let_def)
  then show ?thesis
    by (simp add: alert_no_request) (simp add: alert_def)
qed

theorem invalid_time_rejected_witness:
  "scheduleSpeech sample_platform (sample_world '''')
     = (sample_world '''')\<lparr>alerts := [''Scheduled time must be in the future.'']\<rparr>
   \<and> timers (scheduleSpeech sample_platform (sample_world '''')) = []
   \<and> scheduleSpeech sample_platform (sample_world '''')
       = (scheduleSpeech sample_platform (sample_world ''2025-12-31T23:00''))
           \<lparr>ui := ui (sample_world '''')\<rparr>"
proof -
  have p: "parse_date sample_platform (scheduleTime (ui (sample_world ''''))) = None"
    by (simp add: sample_platform_def sample_world_def sample_dates_def)
  have e: "alerts (sample_world '''') = [] \<and> timers (sample_world '''') = []"
    by (simp add: sample_world_def initial_world_def)
  have past: "scheduleSpeech sample_platform (sample_world ''2025-12-31T23:00'')
     = (sample_world ''2025-12-31T23:00'')\<lparr>alerts := [''Scheduled time must be in the future.'']\<rparr>"
    by (simp add: scheduleSpeech_def Let_def alert_def sample_platform_def sample_world_def
        sample_dates_def initial_world_def)
  from invalid_time_rejected [OF p] e past
  show ?thesis by (simp add: sample_world_def)
qed

subsection \<open>The delay of the timeout\<close>

lemma sint_in_range:
  "0 < x \<Longrightarrow> x < 2 ^ 31 \<Longrightarrow> sint (word_of_int x :: 32 word) = x"
  by (simp add: sint_sbintrunc' signed_take_bit_int_eq_self)

lemma scheduleSpeech_arms:
  assumes "parse_date p (scheduleTime (ui w)) = Some t" and "clock w < t" and "t - clock w < 2 ^ 31"
  shows "scheduleSpeech p w = w\<lparr>timers := timers w @ [(t, ui w)]\<rparr>"
proof -
  have "sint (word_of_int (t - clock w) :: 32 word) = t - clock w"
    using assms by (intro sint_in_range) simp_all
  with assms show ?thesis
    by (simp add: scheduleSpeech_def setTimeout_def Let_def)
qed

text \<open>
  While the delay fits the platform's 32-bit integer, scheduling from a page without
  pending timeouts arms one timeout, due at the target time; the backend is not called
  before that time and is called once, at that time.
\<close>

lemma armed_timeout_fires_on_time:
  assumes "parse_date p (scheduleTime (ui w)) = Some t" and "clock w < t" and "t - clock w < 2 ^ 31"
    and "timers w = []"
  shows "timers (scheduleSpeech p w) = [(t, ui w)]"
    and "clock w + int d < t \<Longrightarrow> requests (elapse p d (scheduleSpeech p w)) = requests w"
    and "t \<le> clock w + int d \<Longrightarrow>
           requests (elapse p d (scheduleSpeech p w)) = requests w @ [(t, weather_url (city (ui w)))]"
  using assms
  by (simp_all add: scheduleSpeech_arms elapse_def Let_def announce_requests)

text \<open>
  Claim C5, at a target time 31 days ahead. The component opens at 2026-01-01T00:00 and
  the picked time is 2026-02-01T00:00, so \<open>\<Delta> = 2678400000\<close> milliseconds, which is
  more than \<open>2 ^ 31 - 1\<close>. The timeout that \<^verbatim>\<open>scheduleSpeech\<close> arms is due at once;
  one millisecond later the backend has been called.
\<close>

theorem far_target_fires_at_once:
  "sample_dates ''2026-02-01T00:00'' = Some (clock (sample_world ''2026-02-01T00:00'') + 2678400000)
   \<and> timers (scheduleSpeech sample_platform (sample_world ''2026-02-01T00:00''))
       = [(clock (sample_world ''2026-02-01T00:00''), ui (sample_world ''2026-02-01T00:00''))]
   \<and> requests (elapse sample_platform 1
        (scheduleSpeech sample_platform (sample_world ''2026-02-01T00:00'')))
       = [(clock (sample_world ''2026-02-01T00:00''), ''http://localhost:3001/weather?city=London'')]"
proof -
  let ?w = "sample_world ''2026-02-01T00:00''"
  have d: "sample_dates ''2026-02-01T00:00'' = Some (clock ?w + 2678400000)"
    by (simp add: sample_dates_def sample_world_def initial_world_def)
  have wrap: "sint (word_of_int 2678400000 :: 32 word) = - 1616567296"
    by simp
  have s: "scheduleSpeech sample_platform ?w = ?w\<lparr>timers := [(clock ?w, ui ?w)]\<rparr>"
    by (simp add: scheduleSpeech_def setTimeout_def Let_def sample_platform_def sample_world_def
        sample_dates_def initial_world_def)
  have r: "requests (elapse sample_platform 1 (?w\<lparr>timers := [(clock ?w, ui ?w)]\<rparr>))
      = [(clock ?w, ''http://localhost:3001/weather?city=London'')]"
    by (simp add: elapse_def Let_def announce_requests weather_url_def sample_world_def
        initial_world_def initial_state_def)
  from d s r show ?thesis by simp
qed

subsection \<open>The list that \<^verbatim>\<open>speakWeather\<close> reads\<close>

text \<open>
  \<^verbatim>\<open>speakWeather\<close> reads the list of its own render. When that list is empty it does
  nothing, so the callback of a timeout armed by a render with an empty list speaks
  nothing, whatever its fetch brings; the first announcement of a page is such a one.
\<close>

lemma speakWeather_empty_list:
  "weather r = JArr [] \<Longrightarrow> speakWeather p r w = Inr w"
  by (simp add: speakWeather_def bindE_def)

lemma announce_empty_render_silent:
  "weather r = JArr [] \<Longrightarrow> spoken (announce p r w) = spoken w"
  by (simp add: announce_def Let_def speakWeather_empty_list fetchWeather_spoken)

lemma first_announcement_silent:
  "spoken (announce p initial_state (initial_world t0)) = []"
  by (simp add: announce_empty_render_silent initial_state_def initial_world_def)

text \<open>
  Claim C7, on the first announcement of a page. The page opens at 2026-01-01T00:00,
  the time picked is five minutes ahead and the backend answers with a bundle of two
  slots. When the timeout fires the backend is called once and the bundle it returns
  is stored, but no utterance is handed to the speech sink: \<^verbatim>\<open>speakWeather\<close> is the
  function of the render that scheduled, whose list is still the empty one.
\<close>

theorem fetched_bundle_not_spoken:
  "requests (elapse sample_platform 300000
       (scheduleSpeech sample_platform (sample_world ''2026-01-01T00:05'')))
     = [(1767225900000, ''http://localhost:3001/weather?city=London'')]
   \<and> weather (ui (elapse sample_platform 300000
       (scheduleSpeech sample_platform (sample_world ''2026-01-01T00:05''))))
     = JArr [forecast_slot (sample_record 0), forecast_slot (sample_record 1)]
   \<and> spoken (elapse sample_platform 300000
       (scheduleSpeech sample_platform (sample_world ''2026-01-01T00:05''))) = []"
proof -
  let ?w = "sample_world ''2026-01-01T00:05''"
  have fits: "sint (word_of_int 300000 :: 32 word) = 300000"
    by simp
  have s: "scheduleSpeech sample_platform ?w = ?w\<lparr>timers := [(1767225900000, ui ?w)]\<rparr>"
    by (simp add: scheduleSpeech_def setTimeout_def Let_def sample_platform_def sample_world_def
        sample_dates_def initial_world_def)
  have e: "elapse sample_platform 300000 (?w\<lparr>timers := [(1767225900000, ui ?w)]\<rparr>)
      = (announce sample_platform (ui ?w) (?w\<lparr>timers := [], clock := 1767225900000\<rparr>))
          \<lparr>clock := 1767225900000\<rparr>"
    by (simp add: elapse_def Let_def sample_world_def initial_world_def)
  have a: "announce sample_platform (ui ?w) (?w\<lparr>timers := [], clock := 1767225900000\<rparr>)
      = ?w\<lparr>timers := [], clock := 1767225900000,
            requests := [(1767225900000, ''http://localhost:3001/weather?city=London'')],
            ui := (ui ?w)\<lparr>weather := sample_bundle\<rparr>\<rparr>"
    by (simp add: announce_def fetchWeather_def speakWeather_def Let_def bindE_def weather_url_def
        sample_platform_def sample_world_def initial_world_def initial_state_def)
  show ?thesis
    unfolding s e a by (simp add: sample_bundle_def sample_world_def initial_world_def)
qed

text \<open>
  Claim C9, on a second announcement. The first announcement of the page above has
  stored a bundle of two slots. The user picks 00:10 and schedules again; by 00:10 the
  backend has nothing to give and answers with an empty list. When the second timeout
  fires the stored list becomes empty, and still an utterance is handed to the speech
  sink: \<^verbatim>\<open>speakWeather\<close> is the function of the render that scheduled, whose list is
  the bundle of the first fetch.
\<close>

theorem stored_list_empty_yet_spoken:
  "weather (ui (elapse emptying_platform 300000 (scheduleSpeech emptying_platform
       (setScheduleTime ''2026-01-01T00:10''
          (elapse emptying_platform 300000
             (scheduleSpeech emptying_platform (sample_world ''2026-01-01T00:05'')))))))
     = JArr []
   \<and> spoken (elapse emptying_platform 300000 (scheduleSpeech emptying_platform
       (setScheduleTime ''2026-01-01T00:10''
          (elapse emptying_platform 300000
             (scheduleSpeech emptying_platform (sample_world ''2026-01-01T00:05''))))))
     = [\<lparr>utterance_text = ''Here is the weather for the next 5 days in London.''
          @ ''On day 0, the temperature will be 10 degrees Celsius, feels like 7 degrees, with light rain.''
          @ '' On day 1, the temperature will be 11 degrees Celsius, feels like 8 degrees, with light rain.'',
         voice = Some \<lparr>name = ''Google UK English Male'', lang = ''en-GB''\<rparr>\<rparr>]"
proof -
  let ?P = emptying_platform
  let ?w0 = "sample_world ''2026-01-01T00:05''"
  let ?s0 = "forecast_slot (sample_record 0)" and ?s1 = "forecast_slot (sample_record 1)"
  let ?url = "''http://localhost:3001/weather?city=London''"
  define w1 where "w1 = elapse ?P 300000 (scheduleSpeech ?P ?w0)"
  define w2 where "w2 = setScheduleTime ''2026-01-01T00:10'' w1"
  define r where "r = ui w2"
  define wf where "wf = fetchWeather ?P r (w2\<lparr>timers := [], clock := 1767226200000\<rparr>)"
  have s1: "scheduleSpeech ?P ?w0 = ?w0\<lparr>timers := [(1767225900000, ui ?w0)]\<rparr>"
    by (simp add: scheduleSpeech_def setTimeout_def Let_def emptying_platform_def
        sample_platform_def sample_world_def sample_dates_def initial_world_def)
  have a1: "announce ?P (ui ?w0) (?w0\<lparr>timers := [], clock := 1767225900000\<rparr>)
      = ?w0\<lparr>timers := [], clock := 1767225900000, requests := [(1767225900000, ?url)],
            ui := (ui ?w0)\<lparr>weather := sample_bundle\<rparr>\<rparr>"
    by (simp add: announce_def fetchWeather_def speakWeather_def Let_def bindE_def weather_url_def
        emptying_platform_def sample_platform_def sample_world_def initial_world_def
        initial_state_def)
  have e1: "elapse ?P 300000 (?w0\<lparr>timers := [(1767225900000, ui ?w0)]\<rparr>)
      = (announce ?P (ui ?w0) (?w0\<lparr>timers := [], clock := 1767225900000\<rparr>))
          \<lparr>clock := 1767225900000\<rparr>"
    by (simp add: elapse_def Let_def sample_world_def initial_world_def)
  have w1: "w1 = ?w0\<lparr>timers := [], clock := 1767225900000, requests := [(1767225900000, ?url)],
            ui := (ui ?w0)\<lparr>weather := sample_bundle\<rparr>\<rparr>"
    unfolding w1_def s1 e1 a1 by simp
  have r: "r = \<lparr>city = ''London'', accent = british_male, weather = sample_bundle,
      voicePermissionsGranted = False, scheduleTime = ''2026-01-01T00:10''\<rparr>"
    unfolding r_def w2_def w1
    by (simp add: setScheduleTime_def sample_world_def initial_world_def initial_state_def)
  have w2: "clock w2 = 1767225900000" "timers w2 = []" "spoken w2 = []" "ui w2 = r"
    unfolding r_def w2_def w1
    by (simp_all add: setScheduleTime_def sample_world_def initial_world_def)
  have s2: "scheduleSpeech ?P w2 = w2\<lparr>timers := [(1767226200000, r)]\<rparr>"
    using w2 r
    by (simp add: scheduleSpeech_def setTimeout_def Let_def emptying_platform_def
        sample_platform_def sample_dates_def)
  have e2: "elapse ?P 300000 (w2\<lparr>timers := [(1767226200000, r)]\<rparr>)
      = (announce ?P r (w2\<lparr>timers := [], clock := 1767226200000\<rparr>))\<lparr>clock := 1767226200000\<rparr>"
    using w2 by (simp add: elapse_def Let_def)
  have wf: "weather (ui wf) = JArr []" "spoken wf = []"
    unfolding wf_def using w2 r
    by (simp_all add: fetchWeather_def Let_def weather_url_def emptying_platform_def
        sample_platform_def)
  have slots: "weather r = JArr (?s0 # [?s1])"
    by (simp add: r sample_bundle_def)
  have objs: "\<forall>x \<in> set (?s0 # [?s1]). is_object x"
    by (simp add: forecast_slot_def)
  have lit: "intro (city r) @ slot_sentence ?P ?s0
        @ concat (map (\<lambda>x. '' '' @ slot_sentence ?P x) [?s1])
      = ''Here is the weather for the next 5 days in London.''
          @ ''On day 0, the temperature will be 10 degrees Celsius, feels like 7 degrees, with light rain.''
          @ '' On day 1, the temperature will be 11 degrees Celsius, feels like 8 degrees, with light rain.''"
    unfolding r by code_simp
  have v: "find_voice ?P (accent r) = Some \<lparr>name = ''Google UK English Male'', lang = ''en-GB''\<rparr>"
    unfolding r by code_simp
  have sp: "speakWeather ?P r wf = Inr (wf\<lparr>spoken := spoken wf @
        [\<lparr>utterance_text = ''Here is the weather for the next 5 days in London.''
          @ ''On day 0, the temperature will be 10 degrees Celsius, feels like 7 degrees, with light rain.''
          @ '' On day 1, the temperature will be 11 degrees Celsius, feels like 8 degrees, with light rain.'',
          voice = Some \<lparr>name = ''Google UK English Male'', lang = ''en-GB''\<rparr>\<rparr>]\<rparr>)"
    unfolding speakWeather_bundle [OF slots objs] lit v ..
  have fin: "elapse ?P 300000 (scheduleSpeech ?P w2)
      = (wf\<lparr>spoken := spoken wf @
        [\<lparr>utterance_text = ''Here is the weather for the next 5 days in London.''
          @ ''On day 0, the temperature will be 10 degrees Celsius, feels like 7 degrees, with light rain.''
          @ '' On day 1, the temperature will be 11 degrees Celsius, feels like 8 degrees, with light rain.'',
          voice = Some \<lparr>name = ''Google UK English Male'', lang = ''en-GB''\<rparr>\<rparr>]\<rparr>)
        \<lparr>clock := 1767226200000\<rparr>"
    unfolding s2 e2 by (simp add: announce_def Let_def wf_def [symmetric] sp)
  have "weather (ui (elapse ?P 300000 (scheduleSpeech ?P w2))) = JArr []"
    unfolding fin using wf by simp
  moreover have "spoken (elapse ?P 300000 (scheduleSpeech ?P w2))
      = [\<lparr>utterance_text = ''Here is the weather for the next 5 days in London.''
          @ ''On day 0, the temperature will be 10 degrees Celsius, feels like 7 degrees, with light rain.''
          @ '' On day 1, the temperature will be 11 degrees Celsius, feels like 8 degrees, with light rain.'',
         voice = Some \<lparr>name = ''Google UK English Male'', lang = ''en-GB''\<rparr>\<rparr>]"
    unfolding fin using wf by simp
  ultimately show ?thesis
    unfolding w2_def w1_def by blast
qed


end
